theory Spec2Isabelle
  imports Main "HOL-Library.AList"
begin

section \<open>JavaScript values used by moviedb.ts\<close>

text \<open>
  The numbers the class stores (\<open>limit.remaining\<close>, \<open>limit.reset\<close>) are JavaScript
  numbers. The values the code puts there are integers (a count, a time in
  milliseconds, a parsed header value, such a value times 1000) or \<open>NaN\<close>.
  Integers are taken exactly, as doubles hold them below \<open>2^53\<close>: on a run of the
  client the count is at most 40 and the times are milliseconds since 1970. \<open>NaN\<close>
  compares false with everything and is absorbing for arithmetic.
\<close>

datatype jsnum = NaN | Fin int

fun js_le :: "jsnum \<Rightarrow> jsnum \<Rightarrow> bool" where
  "js_le (Fin a) (Fin b) = (a \<le> b)"
| "js_le _ _ = False"

fun js_lt :: "jsnum \<Rightarrow> jsnum \<Rightarrow> bool" where
  "js_lt (Fin a) (Fin b) = (a < b)"
| "js_lt _ _ = False"

definition js_gt :: "jsnum \<Rightarrow> jsnum \<Rightarrow> bool" where
  "js_gt a b = js_lt b a"

fun js_add :: "jsnum \<Rightarrow> jsnum \<Rightarrow> jsnum" where
  "js_add (Fin a) (Fin b) = Fin (a + b)"
| "js_add _ _ = NaN"

fun js_sub :: "jsnum \<Rightarrow> jsnum \<Rightarrow> jsnum" where
  "js_sub (Fin a) (Fin b) = Fin (a - b)"
| "js_sub _ _ = NaN"

fun js_mul :: "jsnum \<Rightarrow> jsnum \<Rightarrow> jsnum" where
  "js_mul (Fin a) (Fin b) = Fin (a * b)"
| "js_mul _ _ = NaN"

text \<open>\<open>x--\<close> on a number.\<close>

definition js_dec :: "jsnum \<Rightarrow> jsnum" where
  "js_dec a = js_sub a (Fin 1)"

text \<open>\<open>!x\<close> on a number: \<open>0\<close> and \<open>NaN\<close> are falsy.\<close>

fun js_not :: "jsnum \<Rightarrow> bool" where
  "js_not NaN = True"
| "js_not (Fin k) = (k = 0)"

text \<open>
  Strings are lists of characters; the text the code handles (paths, header values,
  parameter names) is ASCII, where a \<open>char\<close> is one UTF-16 code unit.
\<close>

definition isLetter :: "char \<Rightarrow> bool" where
  "isLetter c = (let n = (of_char c :: nat) in (97 \<le> n \<and> n \<le> 122) \<or> (65 \<le> n \<and> n \<le> 90))"

section \<open>String operations of the endpoint resolver\<close>

definition startsWith :: "string \<Rightarrow> string \<Rightarrow> bool" where
  "startsWith s pat = (take (length pat) s = pat)"

text \<open>\<open>s.includes(pat)\<close>: \<open>pat\<close> occurs in \<open>s\<close> as a substring.\<close>

fun str_includes :: "string \<Rightarrow> string \<Rightarrow> bool" where
  "str_includes [] pat = (pat = [])"
| "str_includes (c # cs) pat = (startsWith (c # cs) pat \<or> str_includes cs pat)"

text \<open>
  The replacement text of \<open>String.prototype.replace\<close> is not taken literally: \<open>$$\<close>
  stands for a dollar, \<open>$&\<close> for the matched text, \<open>$`\<close> for the text before the match
  and \<open>$'\<close> for the text after it. The patterns of this file have no capture group, so
  \<open>$1\<close> and the like stay as they are.
\<close>

fun getSubstitution :: "string \<Rightarrow> string \<Rightarrow> string \<Rightarrow> string \<Rightarrow> string" where
  "getSubstitution matched pre post [] = []"
| "getSubstitution matched pre post [c] = [c]"
| "getSubstitution matched pre post (c # d # r) =
     (if c = CHR ''$'' \<and> d = CHR ''$'' then CHR ''$'' # getSubstitution matched pre post r
      else if c = CHR ''$'' \<and> d = CHR ''&'' then matched @ getSubstitution matched pre post r
      else if c = CHR ''$'' \<and> d = CHR 0x60 then pre @ getSubstitution matched pre post r
      else if c = CHR ''$'' \<and> d = CHR 0x27 then post @ getSubstitution matched pre post r
      else c # getSubstitution matched pre post (d # r))"

text \<open>
  \<open>str.replace(/:[a-z]*/gi, repl)\<close>: every colon together with the letters that follow
  it is replaced. \<open>pre\<close> is the part of the subject already scanned.
\<close>

function replacePlaceholders :: "string \<Rightarrow> string \<Rightarrow> string \<Rightarrow> string" where
  "replacePlaceholders pre [] repl = []"
| "replacePlaceholders pre (c # cs) repl =
     (if c = CHR '':''
      then getSubstitution (c # takeWhile isLetter cs) pre (dropWhile isLetter cs) repl
             @ replacePlaceholders (pre @ c # takeWhile isLetter cs) (dropWhile isLetter cs) repl
      else c # replacePlaceholders (pre @ [c]) cs repl)"
  by pat_completeness auto
termination
  by (relation "measure (\<lambda>(pre, s, repl). length s)")
     (auto simp: le_imp_less_Suc length_dropWhile_le)

text \<open>
  \<open>str.replace(pat, repl)\<close> with a string pattern: only the first occurrence of
  \<open>pat\<close> is replaced; without an occurrence the subject is returned as it is.
\<close>

fun replaceFirst :: "string \<Rightarrow> string \<Rightarrow> string \<Rightarrow> string \<Rightarrow> string" where
  "replaceFirst pre [] pat repl =
     (if pat = [] then getSubstitution pat pre [] repl else [])"
| "replaceFirst pre (c # cs) pat repl =
     (if startsWith (c # cs) pat
      then getSubstitution pat pre (drop (length pat) (c # cs)) repl @ drop (length pat) (c # cs)
      else c # replaceFirst (pre @ [c]) cs pat repl)"

text \<open>\<open>(endpoint.match(/:/g) || []).length\<close>: the number of colons.\<close>

definition countColons :: "string \<Rightarrow> nat" where
  "countColons endpoint = length (filter (\<lambda>c. c = CHR '':'') endpoint)"

text \<open>
  The parameter bag \<open>string | RequestParams\<close>. An object is the list of its entries in
  the order of \<open>Object.keys\<close>; a value is the text that \<open>replace\<close> and the query
  see for it.
\<close>

datatype params = PStr string | PObj "(string \<times> string) list"

text \<open>lodash \<open>isEmpty\<close>: a string of length 0, or an object with no key.\<close>

fun isEmpty :: "params \<Rightarrow> bool" where
  "isEmpty (PStr s) = (s = [])"
| "isEmpty (PObj kvs) = (kvs = [])"

text \<open>
  \<open>prepareEndpoint\<close> (lines 109 to 128). A string bag fills the placeholders only
  when the template has exactly one colon, and is appended as a query string in
  every case; an object with keys replaces, key by key, the first \<open>:key\<close>.
\<close>

fun prepareEndpoint :: "string \<Rightarrow> params \<Rightarrow> string" where
  "prepareEndpoint endpoint (PStr p) =
     (let endpoint1 = (if countColons endpoint = 1
                       then replacePlaceholders [] endpoint p else endpoint)
      in endpoint1 @ (if startsWith p ''?'' then [] else ''?'') @ p)"
| "prepareEndpoint endpoint (PObj kvs) =
     (if kvs \<noteq> []
      then foldl (\<lambda>compiled (key, v). replaceFirst [] compiled (CHR '':'' # key) v) endpoint kvs
      else endpoint)"

section \<open>The client object\<close>

text \<open>
  \<open>RequestOptions\<close>: the two keys \<open>makeRequest\<close> reads. \<open>None\<close> is a key that is
  not there.
\<close>

record options =
  opt_timeout :: "int option"
  appendToResponse :: "string option"

definition noOptions :: options where
  "noOptions = \<lparr>opt_timeout = None, appendToResponse = None\<rparr>"

text \<open>
  An entry of \<open>requestQueue\<close>, as line 140 pushes it:
  \<open>{ method, endpoint, params, options }\<close>. \<open>method\<close> and \<open>endpoint\<close> are
  \<open>undefined\<close> (\<open>None\<close>) when \<open>makeRequest\<close> was called without arguments.
\<close>

record queued =
  q_method :: "string option"
  q_endpoint :: "string option"
  q_params :: params
  q_options :: options

text \<open>The object handed to \<open>axios.request\<close> (lines 173 to 180).\<close>

record request =
  req_method :: "string option"
  req_baseUrl :: string
  req_url :: string
  req_params :: "(string \<times> string) list"
  req_data :: "(string \<times> string) list"
  req_timeout :: "int option"

text \<open>
  The fields of a \<open>MovieDb\<close> object and the timers it has set. \<open>remaining\<close> and
  \<open>reset\<close> are \<open>limit.remaining\<close> and \<open>limit.reset\<close>; \<open>useDefaultLimits\<close> and
  \<open>baseUrl\<close> are the fields of \<open>options\<close>. \<open>limit\<close> and \<open>requestQueue\<close> exist only
  when \<open>useDefaultLimits\<close> is set, and the code reads them only then.
  \<open>timers\<close> holds the pending \<open>setTimeout(this.checkQueue, delay)\<close> calls as pairs of
  timer id and delay in milliseconds; \<open>nextTimer\<close> is the id the next call returns.
\<close>

record state =
  apiKey :: string
  useDefaultLimits :: bool
  baseUrl :: string
  sessionId :: "string option"
  remaining :: jsnum
  reset :: jsnum
  requestQueue :: "queued list"
  requestLimitTimeout :: "nat option"
  timers :: "(nat \<times> int) list"
  nextTimer :: nat

text \<open>
  The constructor, called at time \<open>now\<close> (milliseconds). Without
  \<open>useDefaultLimits\<close> the limit fields are not created; the model gives them the
  same values, and no function reads them in that mode.
\<close>

definition newMovieDb :: "int \<Rightarrow> string \<Rightarrow> bool \<Rightarrow> string \<Rightarrow> state" where
  "newMovieDb now key limits url =
     \<lparr>apiKey = key, useDefaultLimits = limits, baseUrl = url, sessionId = None,
      remaining = Fin 40, reset = Fin (now + 10 * 1000), requestQueue = [],
      requestLimitTimeout = None, timers = [], nextTimer = 0\<rparr>"

text \<open>\<open>clearTimeout(this.requestLimitTimeout)\<close> (line 83).\<close>

definition clearTimeout :: "state \<Rightarrow> state" where
  "clearTimeout s =
     s\<lparr>timers := filter (\<lambda>(i, d). Some i \<noteq> requestLimitTimeout s) (timers s)\<rparr>"

text \<open>\<open>this.requestLimitTimeout = setTimeout(this.checkQueue, delay)\<close> (line 88).\<close>

definition setLimitTimeout :: "int \<Rightarrow> state \<Rightarrow> state" where
  "setLimitTimeout delay s =
     s\<lparr>timers := timers s @ [(nextTimer s, delay)],
       requestLimitTimeout := Some (nextTimer s),
       nextTimer := Suc (nextTimer s)\<rparr>"

text \<open>\<open>setTimeout(this.checkQueue)\<close> (line 103): no delay, and the id is dropped.\<close>

definition setImmediateTimeout :: "state \<Rightarrow> state" where
  "setImmediateTimeout s =
     s\<lparr>timers := timers s @ [(nextTimer s, 0)], nextTimer := Suc (nextTimer s)\<rparr>"

text \<open>
  What a synchronous call does: it returns a value or throws. The values returned
  are \<open>undefined\<close>, the function \<open>this.makeRequest\<close> (line 106) and the promise of
  \<open>axios.request(request)\<close> with its handler (line 182), kept as the request sent.
\<close>

datatype exn = TypeError | ReferenceError

datatype ret = Undefined | MakeRequestFn | PromiseOf request

datatype completion = Return ret | Throw exn

text \<open>A string is truthy when it is there and not empty.\<close>

fun truthyStr :: "string option \<Rightarrow> bool" where
  "truthyStr None = False"
| "truthyStr (Some v) = (v \<noteq> [])"

text \<open>
  \<open>(endpoint.match(/:[a-z]/gi) || []).map(prop => prop.substr(1))\<close> (lines 163, 164):
  each match is a colon and ONE letter, so each element is that one letter.
\<close>

fun omittedProps :: "string \<Rightarrow> string list" where
  "omittedProps (c # d # cs) =
     (if c = CHR '':'' \<and> isLetter d then [d] # omittedProps cs else omittedProps (d # cs))"
| "omittedProps cs = []"

text \<open>lodash \<open>omit\<close> and \<open>merge\<close> on objects whose values are not objects.\<close>

definition omit :: "(string \<times> string) list \<Rightarrow> string list \<Rightarrow> (string \<times> string) list" where
  "omit kvs ks = filter (\<lambda>(k, v). k \<notin> set ks) kvs"

definition merge :: "(string \<times> string) list \<Rightarrow> (string \<times> string) list \<Rightarrow> (string \<times> string) list" where
  "merge dst src = fold (\<lambda>(k, v). AList.update k v) src dst"

text \<open>The first argument of \<open>merge\<close> in lines 167 to 171.\<close>

definition baseQuery :: "state \<Rightarrow> options \<Rightarrow> (string \<times> string) list" where
  "baseQuery s opts =
     [(''api_key'', apiKey s)]
     @ (if truthyStr (sessionId s) then [(''session_id'', the (sessionId s))] else [])
     @ (if truthyStr (appendToResponse opts)
        then [(''append_to_response'', the (appendToResponse opts))] else [])"

text \<open>
  Lines 148 to 180 of \<open>makeRequest\<close>, for an endpoint that is there: the account
  default, the string bag replaced by \<open>{}\<close>, the query and the request object.
\<close>

definition buildRequest :: "state \<Rightarrow> string option \<Rightarrow> string \<Rightarrow> params \<Rightarrow> options \<Rightarrow> request" where
  "buildRequest s m endpoint ps opts =
     (let ps1 = (if str_includes endpoint '':id'' \<and> isEmpty ps \<and> truthyStr (sessionId s)
                 then PObj [(''id'', ''{account_id}'')] else ps);
          ps2 = (case ps1 of PStr p \<Rightarrow> [] | PObj kvs \<Rightarrow> kvs);
          query = merge (baseQuery s opts) (omit ps2 (omittedProps endpoint))
      in \<lparr>req_method = m, req_baseUrl = baseUrl s,
          req_url = prepareEndpoint endpoint (PObj ps2),
          req_params = query, req_data = query,
          req_timeout = (case opt_timeout opts of
                           None \<Rightarrow> None
                         | Some t \<Rightarrow> if t \<noteq> 0 then Some t else None)\<rparr>)"

text \<open>
  Lines 83 to 91 of \<open>checkQueue\<close>: the pending wake is cancelled; with the reset
  time still ahead a new wake is set at the remaining delay, otherwise the quota is
  put back to 40. \<open>limit.reset\<close> is not assigned.
\<close>

definition checkQueue_window :: "state \<Rightarrow> int \<Rightarrow> state" where
  "checkQueue_window s now =
     (let s1 = clearTimeout s;
          delay = js_sub (reset s1) (Fin now)
      in if js_gt delay (Fin 0)
         then setLimitTimeout (case delay of Fin d \<Rightarrow> d | NaN \<Rightarrow> 0) s1
         else s1\<lparr>remaining := Fin 40\<rparr>)"

text \<open>
  Two facts about the loop condition \<open>i < this.limit.remaining\<close>, for the
  termination proof below.
\<close>

lemma js_lt_index_not_le_0: "js_lt (Fin (int i)) r \<Longrightarrow> \<not> js_le r (Fin 0)"
  by (cases r) auto

lemma js_lt_index_measure:
  "js_lt (Fin (int i)) r \<Longrightarrow>
     (case r of NaN \<Rightarrow> 0 | Fin n \<Rightarrow> nat (n - int (Suc i)))
       < (case r of NaN \<Rightarrow> 0 | Fin n \<Rightarrow> nat (n - int i))"
  by (cases r) auto

text \<open>
  \<open>makeRequest\<close> up to the call of \<open>axios.request\<close>, \<open>checkQueue\<close>, and the
  \<open>for\<close> loop of \<open>checkQueue\<close> (lines 94 to 101) from index \<open>i\<close>. \<open>now\<close> is what
  \<open>Date.now()\<close> gives during the call. \<open>makeRequest\<close> with no endpoint throws at
  \<open>endpoint.includes\<close>. In the loop, \<open>shift\<close> on an empty queue gives
  \<open>undefined\<close> and the body is skipped; otherwise \<open>this.makeRequest()\<close> runs with
  no argument, and if it returned, \<open>sendRequest.start\<close> would be called, which no
  queue entry has. The calls end: \<open>makeRequest\<close> calls \<open>checkQueue\<close> only with
  no quota left, the loop calls \<open>makeRequest\<close> only with quota left, and the loop
  index goes up to \<open>remaining\<close>.
\<close>

function makeRequest :: "state \<Rightarrow> int \<Rightarrow> string option \<Rightarrow> string option \<Rightarrow> params \<Rightarrow> options \<Rightarrow> state \<times> completion"
  and checkQueue :: "state \<Rightarrow> int \<Rightarrow> state \<times> completion"
  and drainLoop :: "nat \<Rightarrow> state \<Rightarrow> int \<Rightarrow> state \<times> completion"
where
  "makeRequest s now m endpoint ps opts =
     (if useDefaultLimits s \<and> js_le (remaining s) (Fin 0)
      then checkQueue
             (s\<lparr>requestQueue := requestQueue s @
                  [\<lparr>q_method = m, q_endpoint = endpoint, q_params = ps, q_options = opts\<rparr>]\<rparr>) now
      else (let s1 = (if useDefaultLimits s then s\<lparr>remaining := js_dec (remaining s)\<rparr> else s)
            in case endpoint of
                 None \<Rightarrow> (s1, Throw TypeError)
               | Some e \<Rightarrow> (s1, Return (PromiseOf (buildRequest s1 m e ps opts)))))"
| "checkQueue s now =
     (if requestQueue s = [] then (s, Return Undefined)
      else (let s2 = checkQueue_window s now
            in if js_gt (remaining s2) (Fin 0)
               then (case drainLoop 0 s2 now of
                       (s3, Throw x) \<Rightarrow> (s3, Throw x)
                     | (s3, Return v) \<Rightarrow> (setImmediateTimeout s3, Return MakeRequestFn))
               else (s2, Return MakeRequestFn)))"
| "drainLoop i s now =
     (if js_lt (Fin (int i)) (remaining s)
      then (case requestQueue s of
              [] \<Rightarrow> drainLoop (Suc i) s now
            | sendRequest # rest \<Rightarrow>
                (case makeRequest (s\<lparr>requestQueue := rest\<rparr>) now None None (PObj []) noOptions of
                   (s', Throw x) \<Rightarrow> (s', Throw x)
                 | (s', Return v) \<Rightarrow> (s', Throw TypeError)))
      else (s, Return Undefined))"
  by pat_completeness auto

termination
  by (relation "measures
        [\<lambda>x. case x of
                Inl (s, now, m, e, ps, opts) \<Rightarrow>
                  (if useDefaultLimits s \<and> js_le (remaining s) (Fin 0) then 3 else 0)
              | Inr (Inl (s, now)) \<Rightarrow> 2
              | Inr (Inr (i, s, now)) \<Rightarrow> 1,
         \<lambda>x. case x of
                Inr (Inr (i, s, now)) \<Rightarrow>
                  (case remaining s of NaN \<Rightarrow> 0 | Fin n \<Rightarrow> nat (n - int i))
              | _ \<Rightarrow> 0]")
     (simp_all add: js_lt_index_not_le_0 js_lt_index_measure)

declare makeRequest.simps [simp del] checkQueue.simps [simp del] drainLoop.simps [simp del]

text \<open>
  The failure \<open>axios\<close> rejects with. \<open>err.response\<close> may be missing (a network
  error). A response of axios has \<open>status\<close> and \<open>headers\<close> (the transport returns
  a status code, headers and a body). The handler reads \<open>res.header\<close>, a field
  that no response of axios has; \<open>header\<close> is \<open>None\<close> when the field is missing
  and otherwise the object found there, from header names to values.
\<close>

record response =
  status :: "int option"
  headers :: "(string \<times> string) list"
  header :: "(string \<times> string) list option"

record axios_error =
  err_message :: string
  err_response :: "response option"

text \<open>How the promise that \<open>makeRequest\<close> returned is settled.\<close>

datatype rejection = Exn exn | Err axios_error

datatype settled = Fulfilled ret | Rejected rejection

text \<open>
  The handler given to \<open>catch\<close> (lines 182 to 209), run at time \<open>now\<close> on the error
  \<open>err\<close>. A value the handler returns fulfils the promise, and an exception it throws
  rejects it. \<open>parseInt\<close> is the function of the JavaScript host, not code of this
  file: the handler takes it as a parameter, from what it is applied to (a header
  value, or \<open>undefined\<close> as \<open>None\<close>) to a number, and nothing is assumed of it.
  \<open>res.header[...]\<close> throws a \<open>TypeError\<close> when \<open>res.header\<close> is missing. In the
  429 branch the object literal of lines 193 to 197 names \<open>createAndStartRequest\<close>,
  \<open>resolve\<close> and \<open>reject\<close>, which nothing declares, so evaluating it throws a
  \<open>ReferenceError\<close> before \<open>push\<close> and \<open>checkQueue\<close> run. \<open>0.5 * 1000\<close> is written
  \<open>500\<close>; both calls of \<open>Date.now()\<close> in that branch give \<open>now\<close>. In the last line
  \<open>Promise.reject(err)\<close> makes a rejected promise and drops it; the handler then
  returns \<open>undefined\<close>.
\<close>

definition onRejected ::
  "(string option \<Rightarrow> jsnum) \<Rightarrow> state \<Rightarrow> int \<Rightarrow> axios_error \<Rightarrow> state \<times> settled" where
  "onRejected parseInt s now err =
     (let res = (case err_response err of
                   None \<Rightarrow> \<lparr>status = None, headers = [], header = None\<rparr>
                 | Some r \<Rightarrow> r)
      in if useDefaultLimits s \<and> status res = Some 429
         then (if js_not (reset s) \<or> js_lt (reset s) (Fin now)
               then (case header res of
                       None \<Rightarrow> (s, Rejected (Exn TypeError))
                     | Some h \<Rightarrow>
                         (let retryAfter = parseInt (map_of h ''retry-after'')
                          in (s\<lparr>reset := js_add (Fin now)
                                   (if js_le retryAfter (Fin 0) then Fin 500
                                    else js_mul retryAfter (Fin 1000))\<rparr>,
                              Rejected (Exn ReferenceError))))
               else (s, Rejected (Exn ReferenceError)))
         else if useDefaultLimits s
         then (case header res of
                 None \<Rightarrow> (s, Rejected (Exn TypeError))
               | Some h \<Rightarrow>
                   (s\<lparr>remaining := parseInt (map_of h ''x-ratelimit-remaining''),
                      reset := js_mul (parseInt (map_of h ''x-ratelimit-reset'')) (Fin 1000)\<rparr>,
                    Fulfilled Undefined))
         else (s, Fulfilled Undefined))"

section \<open>Runs of the client\<close>

text \<open>
  What happens to a client from outside: a caller submits a request (the class's
  request methods call \<open>makeRequest\<close> with a method and an endpoint), a timer set by
  \<open>checkQueue\<close> fires and calls it, or a request sent earlier fails and its handler
  runs. Each comes with the time at which it happens. A run takes the events in
  order; an exception thrown by one of them leaves the fields as they are at the
  throw. \<open>parseInt\<close> is the host's function, as for the handler.
\<close>

datatype event =
    Submit int string string params options
  | Wake int
  | Fail int axios_error

fun step :: "(string option \<Rightarrow> jsnum) \<Rightarrow> state \<Rightarrow> event \<Rightarrow> state" where
  "step parseInt s (Submit now m e ps opts) = fst (makeRequest s now (Some m) (Some e) ps opts)"
| "step parseInt s (Wake now) = fst (checkQueue s now)"
| "step parseInt s (Fail now err) = fst (onRejected parseInt s now err)"

fun run :: "(string option \<Rightarrow> jsnum) \<Rightarrow> state \<Rightarrow> event list \<Rightarrow> state" where
  "run parseInt s [] = s"
| "run parseInt s (ev # evs) = run parseInt (step parseInt s ev) evs"







text \<open>
  Two observations of a step, for stating the order of the queue. \<open>enqueued\<close> is
  the entry the event hands to \<open>push\<close> (line 140), if it does. \<open>taken\<close> is what has
  left the queue when the step is over: as many entries as the queue, with the new
  entry, has lost, read from its front.
\<close>

fun enqueued :: "state \<Rightarrow> event \<Rightarrow> queued list" where
  "enqueued s (Submit now m e ps opts) =
     (if useDefaultLimits s \<and> js_le (remaining s) (Fin 0)
      then [\<lparr>q_method = Some m, q_endpoint = Some e, q_params = ps, q_options = opts\<rparr>]
      else [])"
| "enqueued s (Wake now) = []"
| "enqueued s (Fail now err) = []"

definition taken :: "(string option \<Rightarrow> jsnum) \<Rightarrow> state \<Rightarrow> event \<Rightarrow> queued list" where
  "taken parseInt s ev =
     take (length (requestQueue s @ enqueued s ev) - length (requestQueue (step parseInt s ev)))
       (requestQueue s @ enqueued s ev)"

fun enqueuedLog :: "(string option \<Rightarrow> jsnum) \<Rightarrow> state \<Rightarrow> event list \<Rightarrow> queued list" where
  "enqueuedLog parseInt s [] = []"
| "enqueuedLog parseInt s (ev # evs) =
     enqueued s ev @ enqueuedLog parseInt (step parseInt s ev) evs"

fun takenLog :: "(string option \<Rightarrow> jsnum) \<Rightarrow> state \<Rightarrow> event list \<Rightarrow> queued list" where
  "takenLog parseInt s [] = []"
| "takenLog parseInt s (ev # evs) =
     taken parseInt s ev @ takenLog parseInt (step parseInt s ev) evs"

section \<open>Inputs for the examples\<close>

definition exampleClient :: state where
  "exampleClient = newMovieDb 0 ''key'' True ''https://api.themoviedb.org/3/''"

definition movieEntry :: "string \<Rightarrow> queued" where
  "movieEntry n =
     \<lparr>q_method = Some ''get'', q_endpoint = Some ''movie/:id'',
      q_params = PObj [(''id'', n)], q_options = noOptions\<rparr>"

definition twoQueued :: state where
  "twoQueued =
     exampleClient\<lparr>remaining := Fin 0, requestQueue := [movieEntry ''1'', movieEntry ''2'']\<rparr>"

text \<open>A failure with a response of axios: status and headers, no \<open>header\<close>.\<close>

definition axiosResponseError :: "int \<Rightarrow> (string \<times> string) list \<Rightarrow> axios_error" where
  "axiosResponseError st hs =
     \<lparr>err_message = ''Request failed'',
      err_response = Some \<lparr>status = Some st, headers = hs, header = None\<rparr>\<rparr>"

text \<open>
  A failure with status 500 whose response object also has the field \<open>header\<close>, as
  the handler reads it.
\<close>

definition serverError :: "(string \<times> string) list \<Rightarrow> axios_error" where
  "serverError h =
     \<lparr>err_message = ''Request failed with status code 500'',
      err_response = Some \<lparr>status = Some 500, headers = h, header = Some h\<rparr>\<rparr>"

definition sessionClient :: state where
  "sessionClient = exampleClient\<lparr>sessionId := Some ''s1''\<rparr>"

definition submitMovie :: "int \<Rightarrow> string \<Rightarrow> event" where
  "submitMovie now n = Submit now ''get'' ''movie/:id'' (PObj [(''id'', n)]) noOptions"

definition networkError :: axios_error where
  "networkError = \<lparr>err_message = ''Network Error'', err_response = None\<rparr>"

text \<open>
  A run of a client made at time 0: forty submissions at time 1, which use up the
  quota, and two more at times 2 and 3.
\<close>

definition busyRun :: "event list" where
  "busyRun = replicate 40 (submitMovie 1 ''7'') @ [submitMovie 2 ''1'', submitMovie 3 ''2'']"

section \<open>Facts about the parts\<close>

lemma clearTimeout_fields [simp]:
  "requestQueue (clearTimeout s) = requestQueue s"
  "remaining (clearTimeout s) = remaining s"
  "reset (clearTimeout s) = reset s"
  "useDefaultLimits (clearTimeout s) = useDefaultLimits s"
  by (simp_all add: clearTimeout_def)

lemma setLimitTimeout_fields [simp]:
  "requestQueue (setLimitTimeout d s) = requestQueue s"
  "remaining (setLimitTimeout d s) = remaining s"
  "reset (setLimitTimeout d s) = reset s"
  "useDefaultLimits (setLimitTimeout d s) = useDefaultLimits s"
  by (simp_all add: setLimitTimeout_def)

lemma setImmediateTimeout_fields [simp]:
  "requestQueue (setImmediateTimeout s) = requestQueue s"
  "remaining (setImmediateTimeout s) = remaining s"
  "reset (setImmediateTimeout s) = reset s"
  "useDefaultLimits (setImmediateTimeout s) = useDefaultLimits s"
  by (simp_all add: setImmediateTimeout_def)

lemma checkQueue_window_fields [simp]:
  "reset (checkQueue_window s now) = reset s"
  "requestQueue (checkQueue_window s now) = requestQueue s"
  "useDefaultLimits (checkQueue_window s now) = useDefaultLimits s"
  by (simp_all add: checkQueue_window_def Let_def)

lemma checkQueue_window_future:
  "reset s = Fin r \<Longrightarrow> now < r \<Longrightarrow>
     checkQueue_window s now = setLimitTimeout (r - now) (clearTimeout s)"
  by (simp add: checkQueue_window_def js_gt_def)

lemma checkQueue_window_past:
  "\<not> js_lt (Fin now) (reset s) \<Longrightarrow>
     checkQueue_window s now = (clearTimeout s)\<lparr>remaining := Fin 40\<rparr>"
  by (cases "reset s") (simp_all add: checkQueue_window_def js_gt_def)

text \<open>
  What the calls in the drain come to. \<open>this.makeRequest()\<close> has no endpoint: with
  quota left it takes one unit of it and throws. So the first pass of the loop that
  finds a queued request shifts it, takes one unit of quota and throws, and
  \<open>checkQueue\<close> on a queue that is not empty either throws there or, with no quota
  after lines 83 to 91, ends after those lines.
\<close>

lemma makeRequest_no_endpoint:
  "\<not> (useDefaultLimits s \<and> js_le (remaining s) (Fin 0)) \<Longrightarrow>
     makeRequest s now m None ps opts =
       (if useDefaultLimits s then s\<lparr>remaining := js_dec (remaining s)\<rparr> else s,
        Throw TypeError)"
  by (auto simp add: makeRequest.simps Let_def)

lemma drainLoop_head:
  assumes "js_lt (Fin (int i)) (remaining s)" and "requestQueue s = r # rest"
  shows "drainLoop i s now =
           (if useDefaultLimits s
            then s\<lparr>requestQueue := rest, remaining := js_dec (remaining s)\<rparr>
            else s\<lparr>requestQueue := rest\<rparr>, Throw TypeError)"
proof -
  have "\<not> js_le (remaining s) (Fin 0)"
    using assms(1) by (rule js_lt_index_not_le_0)
  then show ?thesis
    using assms by (simp add: drainLoop.simps [of i s now] makeRequest_no_endpoint)
qed

lemma checkQueue_empty: "requestQueue s = [] \<Longrightarrow> checkQueue s now = (s, Return Undefined)"
  by (simp add: checkQueue.simps)

lemma checkQueue_nonempty:
  assumes "requestQueue s = r # rest"
  shows "checkQueue s now =
           (if js_gt (remaining (checkQueue_window s now)) (Fin 0)
            then (if useDefaultLimits s
                  then (checkQueue_window s now)
                         \<lparr>requestQueue := rest,
                          remaining := js_dec (remaining (checkQueue_window s now))\<rparr>
                  else (checkQueue_window s now)\<lparr>requestQueue := rest\<rparr>, Throw TypeError)
            else (checkQueue_window s now, Return MakeRequestFn))"
proof (cases "js_gt (remaining (checkQueue_window s now)) (Fin 0)")
  case True
  then have "js_lt (Fin (int 0)) (remaining (checkQueue_window s now))"
    by (simp add: js_gt_def)
  then have "drainLoop 0 (checkQueue_window s now) now =
           (if useDefaultLimits s
            then (checkQueue_window s now)
                   \<lparr>requestQueue := rest,
                    remaining := js_dec (remaining (checkQueue_window s now))\<rparr>
            else (checkQueue_window s now)\<lparr>requestQueue := rest\<rparr>, Throw TypeError)"
    using assms by (simp add: drainLoop_head [where r = r and rest = rest])
  then show ?thesis
    using assms True by (simp add: checkQueue.simps [of s now] Let_def)
next
  case False
  then show ?thesis
    using assms by (simp add: checkQueue.simps [of s now] Let_def)
qed

lemma max_milliseconds: "max (r * 1000) 500 = (if r \<le> 0 then 500 else r * (1000::int))"
  by auto

section \<open>Admission (lines 138 to 146)\<close>

text \<open>
  C1. With rate limiting on: a submission that finds \<open>remaining\<close> at 0 and the
  reset time still ahead is not handed to axios (the call returns what
  \<open>checkQueue\<close> returns, not a promise of a request); its entry is appended to the
  queue, whose length grows by exactly one, and \<open>remaining\<close> and \<open>reset\<close> stay as
  they were. A submission that finds \<open>remaining\<close> at \<open>n > 0\<close> is handed to axios,
  \<open>remaining\<close> becomes \<open>n - 1\<close> and the queue is not touched.
\<close>

theorem makeRequest_admission:
  assumes "useDefaultLimits s"
  shows "(remaining s = Fin 0 \<and> js_lt (Fin now) (reset s) \<longrightarrow>
            (\<exists>s'. makeRequest s now m e ps opts = (s', Return MakeRequestFn)
               \<and> requestQueue s' = requestQueue s @
                    [\<lparr>q_method = m, q_endpoint = e, q_params = ps, q_options = opts\<rparr>]
               \<and> length (requestQueue s') = length (requestQueue s) + 1
               \<and> remaining s' = remaining s \<and> reset s' = reset s))
       \<and> (0 < n \<and> remaining s = Fin n \<longrightarrow>
            makeRequest s now m (Some e') ps opts =
              (s\<lparr>remaining := Fin (n - 1)\<rparr>,
               Return (PromiseOf (buildRequest (s\<lparr>remaining := Fin (n - 1)\<rparr>) m e' ps opts)))
            \<and> requestQueue (fst (makeRequest s now m (Some e') ps opts)) = requestQueue s)"
proof (intro conjI impI)
  assume a: "remaining s = Fin 0 \<and> js_lt (Fin now) (reset s)"
  then obtain r where r: "reset s = Fin r" "now < r"
    by (cases "reset s") auto
  let ?q = "s\<lparr>requestQueue := requestQueue s @
                [\<lparr>q_method = m, q_endpoint = e, q_params = ps, q_options = opts\<rparr>]\<rparr>"
  have w: "checkQueue_window ?q now = setLimitTimeout (r - now) (clearTimeout ?q)"
    using r by (simp add: checkQueue_window_future)
  have "makeRequest s now m e ps opts =
          (setLimitTimeout (r - now) (clearTimeout ?q), Return MakeRequestFn)"
    using assms a r
    by (simp add: makeRequest.simps checkQueue.simps w js_gt_def)
  then show "\<exists>s'. makeRequest s now m e ps opts = (s', Return MakeRequestFn)
               \<and> requestQueue s' = requestQueue s @
                    [\<lparr>q_method = m, q_endpoint = e, q_params = ps, q_options = opts\<rparr>]
               \<and> length (requestQueue s') = length (requestQueue s) + 1
               \<and> remaining s' = remaining s \<and> reset s' = reset s"
    by simp
next
  assume "0 < n \<and> remaining s = Fin n"
  then show "makeRequest s now m (Some e') ps opts =
              (s\<lparr>remaining := Fin (n - 1)\<rparr>,
               Return (PromiseOf (buildRequest (s\<lparr>remaining := Fin (n - 1)\<rparr>) m e' ps opts)))"
    using assms by (simp add: makeRequest.simps js_dec_def Let_def)
next
  assume "0 < n \<and> remaining s = Fin n"
  then show "requestQueue (fst (makeRequest s now m (Some e') ps opts)) = requestQueue s"
    using assms by (simp add: makeRequest.simps js_dec_def Let_def)
qed

theorem makeRequest_admission_witness:
  "useDefaultLimits exampleClient
   \<and> js_lt (Fin 5) (reset exampleClient)
   \<and> (\<exists>s'. makeRequest (exampleClient\<lparr>remaining := Fin 0\<rparr>) 5 (Some ''get'')
               (Some ''movie/:id'') (PObj [(''id'', ''550'')]) noOptions
             = (s', Return MakeRequestFn)
          \<and> requestQueue s' = [movieEntry ''550'']
          \<and> remaining s' = Fin 0)
   \<and> fst (makeRequest exampleClient 5 (Some ''get'') (Some ''movie/:id'')
            (PObj [(''id'', ''550'')]) noOptions)
       = exampleClient\<lparr>remaining := Fin 39\<rparr>"
  using makeRequest_admission [of "exampleClient\<lparr>remaining := Fin 0\<rparr>" 5
          "Some ''get''" "Some ''movie/:id''" "PObj [(''id'', ''550'')]" noOptions 1 "''movie/:id''"]
        makeRequest_admission [of exampleClient 5
          "Some ''get''" "Some ''movie/:id''" "PObj [(''id'', ''550'')]" noOptions 40 "''movie/:id''"]
  by (auto simp add: exampleClient_def newMovieDb_def movieEntry_def)

section \<open>Window rollover (lines 85 to 91)\<close>

text \<open>
  C2, as the code has it. When the drain runs its lines 83 to 91 at a time \<open>now\<close>
  with \<open>reset \<le> now\<close>, \<open>remaining\<close> is set to 40 and \<open>reset\<close> is left as it is:
  neither these lines nor the rest of \<open>checkQueue\<close> assign \<open>reset\<close>. The window is
  therefore still elapsed afterwards, and running the lines again at the same time
  sets \<open>remaining\<close> to 40 again, whatever it had become (\<open>r\<close>) in between.
\<close>

theorem checkQueue_window_restores:
  assumes "js_le (reset s) (Fin now)"
  shows "remaining (checkQueue_window s now) = Fin 40
       \<and> reset (checkQueue_window s now) = reset s
       \<and> remaining (checkQueue_window ((checkQueue_window s now)\<lparr>remaining := r\<rparr>) now) = Fin 40
       \<and> reset (fst (checkQueue s now)) = reset s"
proof -
  obtain t where t: "reset s = Fin t" "t \<le> now"
    using assms by (cases "reset s") auto
  have past: "\<not> js_lt (Fin now) (reset s)"
    using t by simp
  have 1: "remaining (checkQueue_window s now) = Fin 40"
    using past by (simp add: checkQueue_window_past)
  have "\<not> js_lt (Fin now) (reset ((checkQueue_window s now)\<lparr>remaining := r\<rparr>))"
    using past by simp
  then have 2: "remaining (checkQueue_window ((checkQueue_window s now)\<lparr>remaining := r\<rparr>) now)
                  = Fin 40"
    by (simp add: checkQueue_window_past)
  have 3: "reset (fst (checkQueue s now)) = reset s"
  proof (cases "requestQueue s")
    case Nil
    then show ?thesis by (simp add: checkQueue_empty)
  next
    case (Cons q rest)
    then show ?thesis by (simp add: checkQueue_nonempty [where r = q and rest = rest])
  qed
  from 1 2 3 show ?thesis by simp
qed

theorem checkQueue_window_restores_witness:
  "js_le (reset twoQueued) (Fin 20000)
   \<and> remaining (checkQueue_window twoQueued 20000) = Fin 40
   \<and> remaining (checkQueue_window ((checkQueue_window twoQueued 20000)\<lparr>remaining := Fin 7\<rparr>) 20000)
       = Fin 40
   \<and> reset (fst (checkQueue twoQueued 20000)) = Fin 10000"
  using checkQueue_window_restores [of twoQueued 20000 "Fin 7"]
  by (simp add: twoQueued_def exampleClient_def newMovieDb_def)

text \<open>
  Against C2 as stated. The client has two requests queued, no quota and
  \<open>reset = 10000\<close>; the drain runs at \<open>now = 20000\<close>. After it \<open>reset\<close> is still
  10000, not a time after \<open>now\<close>, and \<open>remaining\<close> is 39 (40 restored, one taken for the
  first queued request). A second drain at the same time restores 40 again: it ends
  with 39 once more, where a quota restored once per window would be down to 38.
\<close>

theorem checkQueue_rollover_counterexample:
  "js_le (reset twoQueued) (Fin 20000)
   \<and> reset (fst (checkQueue twoQueued 20000)) = Fin 10000
   \<and> remaining (fst (checkQueue twoQueued 20000)) = Fin 39
   \<and> remaining (checkQueue_window (fst (checkQueue twoQueued 20000)) 20000) = Fin 40
   \<and> remaining (fst (checkQueue (fst (checkQueue twoQueued 20000)) 20000)) = Fin 39"
  by (simp add: twoQueued_def exampleClient_def newMovieDb_def movieEntry_def
        checkQueue_nonempty checkQueue_window_def clearTimeout_def js_gt_def js_dec_def)

section \<open>The drain before the reset time (lines 85 to 104)\<close>












section \<open>The drain and the queued requests (lines 93 to 104)\<close>

text \<open>The drain never returns a request handed to axios.\<close>

lemma checkQueue_returns_no_request: "snd (checkQueue s now) \<noteq> Return (PromiseOf r)"
proof (cases "requestQueue s")
  case Nil
  then show ?thesis by (simp add: checkQueue_empty)
next
  case (Cons q rest)
  then show ?thesis by (simp add: checkQueue_nonempty [where r = q and rest = rest])
qed

text \<open>
  C4 after \<open>busyRun\<close>: the request for movie 1 was enqueued before the one for movie
  2. The drain at time 20000, after the reset time, shifts the first off the queue,
  takes one unit of the restored quota in \<open>this.makeRequest()\<close> and throws there;
  the entry it shifted is not passed on and no request leaves for axios. The next
  drain does the same with the second. Both requests have left the queue in the
  order in which they came, and neither has been dispatched.
\<close>

theorem checkQueue_drops_shifted_requests:
  "requestQueue (run (\<lambda>v. NaN) exampleClient busyRun) = [movieEntry ''1'', movieEntry ''2'']
   \<and> checkQueue (run (\<lambda>v. NaN) exampleClient busyRun) 20000 =
       (twoQueued\<lparr>remaining := Fin 39, requestQueue := [movieEntry ''2''],
          requestLimitTimeout := Some 1, timers := [], nextTimer := 2\<rparr>,
        Throw TypeError)
   \<and> checkQueue (fst (checkQueue (run (\<lambda>v. NaN) exampleClient busyRun) 20000)) 20001 =
       (twoQueued\<lparr>remaining := Fin 39, requestQueue := [],
          requestLimitTimeout := Some 1, timers := [], nextTimer := 2\<rparr>,
        Throw TypeError)"
  by code_simp

text \<open>
  The order itself is kept. A drain leaves the queue as it is or removes its first
  entry; a step leaves the queue, with the entry it has pushed at the end, as it is
  or without its first entry.
\<close>

lemma onRejected_requestQueue:
  "requestQueue (fst (onRejected parseInt s now err)) = requestQueue s"
  by (simp add: onRejected_def Let_def split: option.splits)

lemma checkQueue_requestQueue:
  "requestQueue (fst (checkQueue s now)) = requestQueue s
   \<or> requestQueue (fst (checkQueue s now)) = tl (requestQueue s)"
proof (cases "requestQueue s")
  case Nil
  then show ?thesis by (simp add: checkQueue_empty)
next
  case (Cons q rest)
  then show ?thesis by (simp add: checkQueue_nonempty [where r = q and rest = rest])
qed

lemma step_requestQueue:
  "requestQueue (step parseInt s ev) = requestQueue s @ enqueued s ev
   \<or> requestQueue (step parseInt s ev) = tl (requestQueue s @ enqueued s ev)"
proof (cases ev)
  case (Submit now m e ps opts)
  show ?thesis
  proof (cases "useDefaultLimits s \<and> js_le (remaining s) (Fin 0)")
    case True
    let ?s = "s\<lparr>requestQueue := requestQueue s @
                 [\<lparr>q_method = Some m, q_endpoint = Some e, q_params = ps, q_options = opts\<rparr>]\<rparr>"
    have "makeRequest s now (Some m) (Some e) ps opts = checkQueue ?s now"
      using True by (simp add: makeRequest.simps)
    then show ?thesis
      using checkQueue_requestQueue [of ?s now] Submit True by simp
  next
    case False
    then show ?thesis
      using Submit by (auto simp add: makeRequest.simps Let_def)
  qed
next
  case (Wake now)
  then show ?thesis
    using checkQueue_requestQueue [of s now] by simp
next
  case (Fail now err)
  then show ?thesis
    by (simp add: onRejected_requestQueue)
qed

lemma taken_step:
  "taken parseInt s ev @ requestQueue (step parseInt s ev) = requestQueue s @ enqueued s ev"
proof -
  let ?q = "requestQueue s @ enqueued s ev"
  from step_requestQueue [of parseInt s ev] show ?thesis
  proof
    assume "requestQueue (step parseInt s ev) = ?q"
    then show ?thesis by (simp add: taken_def)
  next
    assume a: "requestQueue (step parseInt s ev) = tl ?q"
    show ?thesis
    proof (cases ?q)
      case Nil
      then show ?thesis using a by (simp add: taken_def)
    next
      case (Cons x xs)
      then show ?thesis using a by (simp add: taken_def)
    qed
  qed
qed

text \<open>
  Over any run from any state: the requests that have left the queue, in the order
  in which they left, followed by the queue as it is now, are the queue of the start
  followed by the requests enqueued during the run, in the order in which they were
  enqueued.
\<close>

lemma requestQueue_fifo:
  "takenLog parseInt s evs @ requestQueue (run parseInt s evs)
     = requestQueue s @ enqueuedLog parseInt s evs"
proof (induction evs arbitrary: s)
  case Nil
  show ?case by simp
next
  case (Cons ev evs)
  have "takenLog parseInt s (ev # evs) @ requestQueue (run parseInt s (ev # evs))
          = taken parseInt s ev @ (takenLog parseInt (step parseInt s ev) evs
              @ requestQueue (run parseInt (step parseInt s ev) evs))"
    by simp
  also have "\<dots> = taken parseInt s ev @ (requestQueue (step parseInt s ev)
              @ enqueuedLog parseInt (step parseInt s ev) evs)"
    by (simp only: Cons.IH)
  also have "\<dots> = (requestQueue s @ enqueued s ev) @ enqueuedLog parseInt (step parseInt s ev) evs"
    by (simp only: taken_step append_assoc [symmetric])
  finally show ?case by simp
qed

section \<open>The rejection handler (lines 182 to 209)\<close>

text \<open>
  What the handler does with a response that has no \<open>header\<close>, as every response
  of axios: it throws, a \<open>TypeError\<close> where it reads \<open>res.header[...]\<close>, or the
  \<open>ReferenceError\<close> of the 429 branch where \<open>reset\<close> is ahead and the header is not
  read; the fields of the client stay as they are.
\<close>

lemma onRejected_header_missing:
  assumes "useDefaultLimits s" and "err_response err = Some res" and "header res = None"
  shows "onRejected parseInt s now err =
           (s, if status res = Some 429 \<and> \<not> (js_not (reset s) \<or> js_lt (reset s) (Fin now))
               then Rejected (Exn ReferenceError) else Rejected (Exn TypeError))"
  using assms by (simp add: onRejected_def)

text \<open>
  What lines 188 to 191 do on a response object that has the field \<open>header\<close>, with
  \<open>retry-after\<close> parsed as \<open>r\<close>: with \<open>reset\<close> unset or before \<open>now\<close> it becomes
  \<open>now + max (r * 1000) 500\<close> milliseconds, and with \<open>reset\<close> after \<open>now\<close> it stays.
\<close>

lemma onRejected_429_with_header:
  assumes "useDefaultLimits s" and "err_response err = Some res" and "status res = Some 429"
  shows "((js_not (reset s) \<or> js_lt (reset s) (Fin now)) \<and> header res = Some h
            \<and> parseInt (map_of h ''retry-after'') = Fin r
          \<longrightarrow> reset (fst (onRejected parseInt s now err)) = Fin (now + max (r * 1000) 500))
       \<and> (0 \<le> now \<and> js_lt (Fin now) (reset s)
          \<longrightarrow> reset (fst (onRejected parseInt s now err)) = reset s)"
proof (intro conjI impI)
  assume "(js_not (reset s) \<or> js_lt (reset s) (Fin now)) \<and> header res = Some h
            \<and> parseInt (map_of h ''retry-after'') = Fin r"
  then show "reset (fst (onRejected parseInt s now err)) = Fin (now + max (r * 1000) 500)"
    using assms by (auto simp add: onRejected_def max_milliseconds)
next
  assume b: "0 \<le> now \<and> js_lt (Fin now) (reset s)"
  then obtain t where t: "reset s = Fin t" "now < t"
    by (cases "reset s") auto
  then have "\<not> js_not (reset s)" "\<not> js_lt (reset s) (Fin now)"
    using b by auto
  then show "reset (fst (onRejected parseInt s now err)) = reset s"
    using assms by (simp add: onRejected_def)
qed

text \<open>
  C5 at a 429 of axios. The client's \<open>reset\<close> is 10000 and the response, with
  \<open>retry-after: 5\<close> among its headers, arrives at \<open>now = 70000\<close>, after the reset
  time. Line 189 reads \<open>res.header\<close>, which the response does not have: the handler
  throws a \<open>TypeError\<close> and \<open>reset\<close> is still 10000, not 75000.
\<close>

theorem onRejected_429_header_missing:
  "reset exampleClient = Fin 10000
   \<and> onRejected parseInt exampleClient 70000 (axiosResponseError 429 [(''retry-after'', ''5'')])
       = (exampleClient, Rejected (Exn TypeError))"
  by (simp add: onRejected_def exampleClient_def newMovieDb_def axiosResponseError_def)

text \<open>
  C6 on three failures that are not a 429. With rate limiting off, a network error
  makes the handler return \<open>undefined\<close>: the promise the caller holds is fulfilled
  with \<open>undefined\<close>, not rejected. With rate limiting on, a 500 response whose object
  has \<open>header\<close> with quota values ends the same way, and a network error (no
  response, so no \<open>header\<close>) rejects the promise with the \<open>TypeError\<close> of
  \<open>res.header[...]\<close>, not with the error of the request. In none of them is the
  request queued again.
\<close>

theorem onRejected_swallows_error:
  "onRejected parseInt (newMovieDb 0 ''key'' False ''https://api.themoviedb.org/3/'') 5 networkError
     = (newMovieDb 0 ''key'' False ''https://api.themoviedb.org/3/'', Fulfilled Undefined)
   \<and> snd (onRejected parseInt exampleClient 5
            (serverError [(''x-ratelimit-remaining'', ''39''), (''x-ratelimit-reset'', ''10'')]))
     = Fulfilled Undefined
   \<and> onRejected parseInt exampleClient 5 networkError = (exampleClient, Rejected (Exn TypeError))"
  by (simp add: onRejected_def exampleClient_def newMovieDb_def serverError_def networkError_def)

text \<open>
  The handler never rejects with an error of the request, whatever the state, the
  time and the failure.
\<close>

lemma onRejected_never_propagates: "snd (onRejected parseInt s now err) \<noteq> Rejected (Err e)"
  by (simp add: onRejected_def Let_def split: option.splits)

text \<open>
  C7 at a 500 of axios whose \<open>x-ratelimit-remaining\<close> is the text "abc". With rate
  limiting on, line 203 reads \<open>res.header\<close>, which the response does not have: the
  handler throws a \<open>TypeError\<close>, and the caller's promise is rejected with it. The
  tracker is as before (\<open>remaining = 5\<close>), but the handler has crashed on the
  feedback and the outcome is not the one the same failure has without the feedback
  step, on a client without rate limiting.
\<close>

theorem onRejected_feedback_header_missing:
  "onRejected parseInt (exampleClient\<lparr>remaining := Fin 5\<rparr>) 7
       (axiosResponseError 500 [(''x-ratelimit-remaining'', ''abc'')])
     = (exampleClient\<lparr>remaining := Fin 5\<rparr>, Rejected (Exn TypeError))
   \<and> snd (onRejected parseInt (newMovieDb 0 ''key'' False ''https://api.themoviedb.org/3/'') 7
            (axiosResponseError 500 [(''x-ratelimit-remaining'', ''abc'')]))
     = Fulfilled Undefined"
  by (simp add: onRejected_def exampleClient_def newMovieDb_def axiosResponseError_def)

section \<open>The endpoint resolver (lines 109 to 128)\<close>

text \<open>
  C8, as the code has it. For a template with more than one colon and a string bag,
  \<open>prepareEndpoint\<close> raises nothing: it returns the template as it is, no
  placeholder replaced, followed by the bag as a query string (with a question mark
  put before it unless the bag starts with one). A submission of such a template
  with a string bag that is admitted throws nothing either: it is handed to axios.
\<close>

theorem prepareEndpoint_scalar_many:
  assumes "1 < countColons endpoint"
  shows "prepareEndpoint endpoint (PStr p)
           = endpoint @ (if startsWith p ''?'' then [] else ''?'') @ p
       \<and> take (length endpoint) (prepareEndpoint endpoint (PStr p)) = endpoint
       \<and> (\<not> (useDefaultLimits s \<and> js_le (remaining s) (Fin 0)) \<longrightarrow>
            (\<exists>s' r. makeRequest s now m (Some endpoint) (PStr p) opts
                      = (s', Return (PromiseOf r))))"
proof -
  have eq: "prepareEndpoint endpoint (PStr p)
              = endpoint @ (if startsWith p ''?'' then [] else ''?'') @ p"
    using assms by simp
  have kept: "take (length endpoint) (prepareEndpoint endpoint (PStr p)) = endpoint"
    by (simp add: eq del: prepareEndpoint.simps)
  have sent: "\<not> (useDefaultLimits s \<and> js_le (remaining s) (Fin 0)) \<longrightarrow>
            (\<exists>s' r. makeRequest s now m (Some endpoint) (PStr p) opts
                      = (s', Return (PromiseOf r)))"
    by (auto simp add: makeRequest.simps Let_def)
  from eq kept sent show ?thesis by blast
qed

theorem prepareEndpoint_scalar_many_witness:
  "1 < countColons ''movie/:id/lists/:list''
   \<and> prepareEndpoint ''movie/:id/lists/:list'' (PStr ''7'') = ''movie/:id/lists/:list?7''
   \<and> \<not> (useDefaultLimits exampleClient \<and> js_le (remaining exampleClient) (Fin 0))
   \<and> (\<exists>s' r. makeRequest exampleClient 5 (Some ''get'') (Some ''movie/:id/lists/:list'')
                 (PStr ''7'') noOptions = (s', Return (PromiseOf r)))"
  using prepareEndpoint_scalar_many [of "''movie/:id/lists/:list''" "''7''" exampleClient 5
          "Some ''get''" noOptions]
  by (simp add: countColons_def startsWith_def exampleClient_def newMovieDb_def)

text \<open>
  Against C8 as stated. The template has two placeholders and the bag is the string
  "7": the resolver returns a path, it does not fail.
\<close>

theorem prepareEndpoint_scalar_counterexample:
  "countColons ''movie/:id/lists/:list'' = 2
   \<and> prepareEndpoint ''movie/:id/lists/:list'' (PStr ''7'') = ''movie/:id/lists/:list?7''"
  by (simp add: countColons_def startsWith_def)

section \<open>The request that is sent (lines 148 to 180)\<close>

text \<open>
  C9 at the template \<open>movie/:id\<close> with the bag \<open>{id: 550, language: en}\<close>. The
  placeholder is filled from \<open>id\<close> (the path is \<open>movie/550\<close>), and \<open>id\<close> is in the
  query all the same: the keys left out of the query are the single letters that
  follow a colon in the template, here \<open>i\<close>, not the placeholder names.
\<close>

theorem makeRequest_query_keeps_consumed_key:
  "makeRequest exampleClient 5 (Some ''get'') (Some ''movie/:id'')
       (PObj [(''id'', ''550''), (''language'', ''en'')]) noOptions =
     (exampleClient\<lparr>remaining := Fin 39\<rparr>,
      Return (PromiseOf
        \<lparr>req_method = Some ''get'', req_baseUrl = ''https://api.themoviedb.org/3/'',
         req_url = ''movie/550'',
         req_params = [(''api_key'', ''key''), (''id'', ''550''), (''language'', ''en'')],
         req_data = [(''api_key'', ''key''), (''id'', ''550''), (''language'', ''en'')],
         req_timeout = None\<rparr>))
   \<and> omittedProps ''movie/:id'' = [''i'']"
  by (simp add: makeRequest.simps exampleClient_def newMovieDb_def js_dec_def buildRequest_def
        startsWith_def isLetter_def merge_def omit_def baseQuery_def noOptions_def Let_def)

text \<open>
  Every key that is left out of the query is a single letter, so a bag key of any
  other length stays in what \<open>omit\<close> returns, placeholder or not.
\<close>

lemma omittedProps_single_letters: "k \<in> set (omittedProps e) \<Longrightarrow> length k = 1"
  by (induction e rule: omittedProps.induct) (auto split: if_splits)

lemma omit_keeps_longer_keys:
  "(k, v) \<in> set ps \<Longrightarrow> length k \<noteq> 1 \<Longrightarrow> (k, v) \<in> set (omit ps (omittedProps e))"
  using omittedProps_single_letters [of k e] by (auto simp add: omit_def)

text \<open>The request built for a string bag.\<close>

lemma buildRequest_string_bag:
  "buildRequest s m e (PStr p) opts =
     (if str_includes e '':id'' \<and> p = [] \<and> truthyStr (sessionId s)
      then buildRequest s m e (PObj [(''id'', ''{account_id}'')]) opts
      else \<lparr>req_method = m, req_baseUrl = baseUrl s, req_url = e,
             req_params = baseQuery s opts, req_data = baseQuery s opts,
             req_timeout = (case opt_timeout opts of
                              None \<Rightarrow> None | Some t \<Rightarrow> if t \<noteq> 0 then Some t else None)\<rparr>)"
  by (simp add: buildRequest_def Let_def merge_def omit_def)

text \<open>
  C10, as the code has it. A submission with a string bag that is admitted is handed
  to axios. Unless the string is empty while the template contains \<open>:id\<close> and a
  session is active, the bag is replaced by the empty object: the path is the
  template itself, with nothing appended, and the query is the API key, the session
  id and the \<open>appendToResponse\<close> flag, nothing else. In the excepted case the
  account default of line 151 applies as it does to an empty object, and the request
  is the one for the bag \<open>{id: '{account_id}'}\<close>.
\<close>

theorem makeRequest_string_bag:
  assumes "\<not> (useDefaultLimits s \<and> js_le (remaining s) (Fin 0))"
  shows "\<exists>s' r. makeRequest s now m (Some e) (PStr p) opts = (s', Return (PromiseOf r))
           \<and> (if str_includes e '':id'' \<and> p = [] \<and> truthyStr (sessionId s)
              then r = buildRequest s' m e (PObj [(''id'', ''{account_id}'')]) opts
              else req_url r = e \<and> req_params r = baseQuery s opts
                   \<and> req_data r = baseQuery s opts)"
  using assms
  by (auto simp add: makeRequest.simps Let_def buildRequest_string_bag baseQuery_def)

theorem makeRequest_string_bag_witness:
  "\<not> (useDefaultLimits sessionClient \<and> js_le (remaining sessionClient) (Fin 0))
   \<and> (\<exists>s' r. makeRequest sessionClient 5 (Some ''get'') (Some ''account/:id/lists'')
                 (PStr ''page=2'') noOptions = (s', Return (PromiseOf r))
          \<and> req_url r = ''account/:id/lists''
          \<and> req_params r = [(''api_key'', ''key''), (''session_id'', ''s1'')])"
  using makeRequest_string_bag [of sessionClient 5 "Some ''get''" "''account/:id/lists''"
          "''page=2''" noOptions]
  by (auto simp add: sessionClient_def exampleClient_def newMovieDb_def baseQuery_def
        noOptions_def startsWith_def)

text \<open>
  Against C10 as stated. The bag is the empty string, the template contains \<open>:id\<close>
  and a session is active. The bag is not replaced by the empty object, which would
  leave the path \<open>account/:id/lists\<close> and a query of the API key and the session
  id: the path is \<open>account/{account_id}/lists\<close> and the query has \<open>id\<close> as well.
\<close>

theorem makeRequest_empty_string_counterexample:
  "makeRequest sessionClient 5 (Some ''get'') (Some ''account/:id/lists'') (PStr []) noOptions =
     (sessionClient\<lparr>remaining := Fin 39\<rparr>,
      Return (PromiseOf
        \<lparr>req_method = Some ''get'', req_baseUrl = ''https://api.themoviedb.org/3/'',
         req_url = ''account/{account_id}/lists'',
         req_params = [(''api_key'', ''key''), (''session_id'', ''s1''), (''id'', ''{account_id}'')],
         req_data = [(''api_key'', ''key''), (''session_id'', ''s1''), (''id'', ''{account_id}'')],
         req_timeout = None\<rparr>))
   \<and> prepareEndpoint ''account/:id/lists'' (PObj []) = ''account/:id/lists''"
  by (simp add: makeRequest.simps sessionClient_def exampleClient_def newMovieDb_def js_dec_def
        buildRequest_def startsWith_def isLetter_def merge_def omit_def baseQuery_def
        noOptions_def Let_def)

end
